theory Spec2Isabelle
  imports Complex_Main
begin

section \<open>Water-level comparison and tidal constituents (wl_plotter.py)\<close>

text \<open>
  A shallow embedding of the numeric core of \<^verbatim>\<open>wl_plotter.py\<close>: the table of minimum
  record lengths and the selection of constituents in \<^verbatim>\<open>tidal_analysis\<close>, the
  constituent-wise error measures (\<^verbatim>\<open>phase_correct\<close>, \<^verbatim>\<open>mae_phase\<close>, \<^verbatim>\<open>mean_rmse\<close> and
  the loop of \<^verbatim>\<open>tidal_error\<close> that calls them), the class \<^verbatim>\<open>TSData\<close> with its
  statistics, the phase panel of \<^verbatim>\<open>amplitude_plot\<close>, the choice of the resampling
  direction (\<^verbatim>\<open>higher_resolution\<close>), the alignment and the station loop of \<^verbatim>\<open>main\<close>.
  The relative amplitude error \<^verbatim>\<open>mre\<close>, the harmonic solver of pytides and the drawing
  of figures are left out.

  Floating-point numbers are modelled by the reals, so every statement is one of exact
  arithmetic. A quotient whose divisor is zero, and the mean of no values, are NaN or
  infinite in numpy; the model returns \<open>None\<close> for them.
\<close>

subsection \<open>The table of minimum record lengths\<close>

text \<open>
  \<^verbatim>\<open>MINHOURS\<close>, lines 55 to 88: the number of hours of record needed to separate a
  constituent from its neighbours. A Python dict with distinct keys, written as an
  association list; \<^verbatim>\<open>MINHOURS.get(k)\<close> is \<open>map_of MINHOURS k\<close>.
\<close>

definition MINHOURS :: "(string \<times> nat) list" where
  "MINHOURS =
    [(''M2'', 12), (''M4'', 12), (''M6'', 12), (''M8'', 12),
     (''K1'', 27),
     (''S6'', 118),
     (''2MK3'', 329), (''MK3'', 329), (''O1'', 329), (''OO1'', 329),
     (''2Q1'', 332),
     (''2SM2'', 356), (''MS4'', 356), (''S2'', 356), (''S4'', 356),
     (''M1'', 656), (''M3'', 656),
     (''J1'', 663), (''MN4'', 663), (''N2'', 663), (''Q1'', 663),
     (''L2'', 764), (''MM'', 764), (''MU2'', 764),
     (''K2'', 4383), (''MF'', 4383), (''MSF'', 4383), (''P1'', 4383),
     (''2N2'', 4942), (''LAMBDA2'', 4942), (''NU2'', 4942), (''RHO1'', 4942)]"

definition MINHOURS_get :: "string \<Rightarrow> nat option" where
  "MINHOURS_get k = map_of MINHOURS k"

text \<open>\<^verbatim>\<open>PLOT_CONSTITUENTS\<close>, line 91.\<close>

definition PLOT_CONSTITUENTS :: "string list" where
  "PLOT_CONSTITUENTS = [''M2'', ''S2'', ''N2'', ''K2'', ''O1'', ''K1'', ''Q1'', ''P1'']"

subsection \<open>Selection of the constituents to solve for\<close>

text \<open>
  Lines 199 to 211 of \<^verbatim>\<open>tidal_analysis\<close>. The catalogue \<^verbatim>\<open>noaa_constituents\<close> comes from
  the pytides package and is a parameter here: the list of the constituents' names
  \<^verbatim>\<open>str(c)\<close>, in the catalogue's order. \<open>thrs\<close> is the record length in hours.

  \<^verbatim>\<open>
    for c in noaa_constituents:
        minh = MINHOURS.get(str(c))
        if minh and thrs >= minh:
            _constituents.append(c)
        elif minh is None and thrs >= 24*366:
            _constituents.append(c)
  \<close>

  Python's \<^verbatim>\<open>minh and ...\<close> is false for \<^verbatim>\<open>None\<close> and for the number 0; the \<^verbatim>\<open>elif\<close> is
  reached with a declared threshold too, and then appends nothing.
\<close>

definition keep_constituent :: "real \<Rightarrow> string \<Rightarrow> bool" where
  "keep_constituent thrs c =
     (let minh = MINHOURS_get c in
      if (case minh of None \<Rightarrow> False | Some h \<Rightarrow> h \<noteq> 0 \<and> thrs \<ge> real h) then True
      else if minh = None \<and> thrs \<ge> 24 * 366 then True
      else False)"

fun select_loop :: "string list \<Rightarrow> real \<Rightarrow> string list \<Rightarrow> string list" where
  "select_loop [] thrs acc = acc"
| "select_loop (c # cs) thrs acc =
     (if keep_constituent thrs c then select_loop cs thrs (acc @ [c])
      else select_loop cs thrs acc)"

definition constituents_for :: "string list \<Rightarrow> real \<Rightarrow> string list" where
  "constituents_for noaa_constituents thrs = select_loop noaa_constituents thrs []"

text \<open>
  The record length of line 201, \<^verbatim>\<open>(t[-1] - t[0]).total_seconds() / 3600\<close>, for a time
  index in whole seconds. The frame of a \<^verbatim>\<open>TSData\<close> is never empty (line 594), so the
  index has a first and a last element; for the empty index, where Python raises
  IndexError, the result is \<open>None\<close>.
\<close>

definition record_hours :: "int list \<Rightarrow> real option" where
  "record_hours t = (if t = [] then None else Some (real_of_int (last t - hd t) / 3600))"

subsection \<open>Constituent-wise error measures\<close>

text \<open>
  The arguments of \<^verbatim>\<open>mae_phase\<close> and \<^verbatim>\<open>mean_rmse\<close> are columns of the two pivoted
  frames of \<^verbatim>\<open>tidal_error\<close>, one entry per station. A column is a list of reals: the
  frames are taken over the same stations, in the same order, with no missing cell.
  Elementwise arithmetic on two columns is \<open>map2\<close>.

  \<^verbatim>\<open>
  def phase_correct(pdiff):
      pdiff[pdiff > 180] = 360 - pdiff[pdiff > 180]
      pdiff[pdiff < -180] = 360 + pdiff[pdiff < -180]
      return pdiff
  \<close>

  The two assignments run one after the other, so the second one tests the values the
  first one has written. \<open>phase_correct\<close> is the array the function returns; what the
  call does to its argument is modelled separately below (\<open>phase_correct_inplace\<close>).
\<close>

definition fold_high :: "real \<Rightarrow> real" where
  "fold_high p = (if p > 180 then 360 - p else p)"

definition fold_low :: "real \<Rightarrow> real" where
  "fold_low p = (if p < - 180 then 360 + p else p)"

definition phase_correct :: "real list \<Rightarrow> real list" where
  "phase_correct pdiff = map fold_low (map fold_high pdiff)"

text \<open>
  The mean \<^verbatim>\<open>np.sum(tmp)/len(tmp)\<close> of lines 164 and 174 and the \<^verbatim>\<open>.mean()\<close> of a
  column: NaN, here \<open>None\<close>, for no values.
\<close>

definition mean :: "real list \<Rightarrow> real option" where
  "mean xs = (if xs = [] then None else Some (sum_list xs / real (length xs)))"

text \<open>
  \<^verbatim>\<open>
  def mae_phase(model, obs):
      tmp = np.abs(phase_correct(obs - model))
      return np.sum(tmp)/len(tmp)
  \<close>
\<close>

definition mae_phase :: "real list \<Rightarrow> real list \<Rightarrow> real option" where
  "mae_phase model obs = mean (map abs (phase_correct (map2 (-) obs model)))"

text \<open>
  \<^verbatim>\<open>
  def mean_rmse(Am, An, Pm, Pn):
      tmp = 0.5 * (Am ** 2 + An ** 2) - Am * An * np.cos(np.pi*phase_correct(Pm - Pn)/180)
      return np.sum(np.sqrt(tmp))/len(tmp)
  \<close>
\<close>

definition mean_rmse_tmp :: "real list \<Rightarrow> real list \<Rightarrow> real list \<Rightarrow> real list \<Rightarrow> real list" where
  "mean_rmse_tmp Am An Pm Pn =
     map2 (-)
       (map (\<lambda>s. 0.5 * s) (map2 (+) (map (\<lambda>a. a ^ 2) Am) (map (\<lambda>a. a ^ 2) An)))
       (map2 (*) (map2 (*) Am An)
          (map (\<lambda>d. cos (pi * d / 180)) (phase_correct (map2 (-) Pm Pn))))"

definition mean_rmse :: "real list \<Rightarrow> real list \<Rightarrow> real list \<Rightarrow> real list \<Rightarrow> real option" where
  "mean_rmse Am An Pm Pn = mean (map sqrt (mean_rmse_tmp Am An Pm Pn))"

text \<open>
  The formula of the specification for the same measure, in the specification's words:
  the square root of the mean over the stations of
  \<open>0.5 * (A_model\<^sup>2 + A_obs\<^sup>2) - A_model * A_obs * cos (pi * dphase / 180)\<close>.
\<close>

definition spec_combined_rmse ::
  "real list \<Rightarrow> real list \<Rightarrow> real list \<Rightarrow> real list \<Rightarrow> real option" where
  "spec_combined_rmse Am An Pm Pn = map_option sqrt (mean (mean_rmse_tmp Am An Pm Pn))"

text \<open>
  The circular difference of two phases as \<^verbatim>\<open>mae_phase\<close> forms it for one station:
  \<^verbatim>\<open>phase_correct(obs - model)\<close>.
\<close>

definition circular_diff :: "real \<Rightarrow> real \<Rightarrow> real" where
  "circular_diff model obs = hd (phase_correct [obs - model])"

text \<open>
  The columns MAE and MRMSE of \<^verbatim>\<open>tidal_error\<close>, lines 319 to 331. A pivoted frame
  is an association list from the constituent to its phase column and its amplitude
  column. The constituents are those of the model's frame; a constituent that the
  observations' frame lacks makes \<^verbatim>\<open>O[("phase", c)]\<close> raise KeyError.
\<close>

datatype error = KeyError | IndexError | ValueError | ReadError

type_synonym pivoted = "(string \<times> real list \<times> real list) list"

fun tidal_error_stats ::
  "pivoted \<Rightarrow> pivoted \<Rightarrow> string list \<Rightarrow> error + (string \<times> real option \<times> real option) list" where
  "tidal_error_stats Mt Ot [] = Inr []"
| "tidal_error_stats Mt Ot (c # cs) =
     (case (map_of Mt c, map_of Ot c) of
        (Some (Pm, Am), Some (Pn, An)) \<Rightarrow>
          (case tidal_error_stats Mt Ot cs of
             Inl e \<Rightarrow> Inl e
           | Inr rows \<Rightarrow> Inr ((c, mae_phase Pm Pn, mean_rmse Am An Pm Pn) # rows))
      | _ \<Rightarrow> Inl KeyError)"

definition tidal_error :: "pivoted \<Rightarrow> pivoted \<Rightarrow> error + (string \<times> real option \<times> real option) list" where
  "tidal_error Mt Ot = tidal_error_stats Mt Ot (remdups (map fst Mt))"

subsection \<open>The class TSData and its statistics\<close>

text \<open>
  The frame that \<^verbatim>\<open>main\<close> hands to \<^verbatim>\<open>TSData\<close> is the inner join of the two resampled
  series after \<^verbatim>\<open>dropna()\<close>: one row per timestamp, with a model value and an
  observation, none of them missing. The time index is in whole seconds. The field
  \<^verbatim>\<open>datum\<close> holds what \<^verbatim>\<open>main\<close> passes, the cell of the correspondence table: a label or
  \<^verbatim>\<open>None\<close>.
\<close>

record row =
  time :: int
  model :: real
  observation :: real

record TSData =
  datum :: "string option"
  station_id :: string
  data :: "row list"
  bias_correct :: bool

text \<open>
  \<^verbatim>\<open>
    def __init__(self, datum, station_id, data, bias_correct=False):
        ...
        self.data = data.copy()
        self.bias_correct = bias_correct
        if bias_correct:
            self.data.observation += (data.model - data.observation).mean()
  \<close>

  The mean of no rows is NaN; it is then added to no observation, and the copy is the
  empty frame it was.
\<close>

definition TSData_init :: "string option \<Rightarrow> string \<Rightarrow> row list \<Rightarrow> bool \<Rightarrow> TSData" where
  "TSData_init dt sid df bc =
     \<lparr>datum = dt, station_id = sid,
      data = (if bc then
                (case mean (map (\<lambda>r. model r - observation r) df) of
                   None \<Rightarrow> df
                 | Some s \<Rightarrow> map (\<lambda>r. r\<lparr>observation := observation r + s\<rparr>) df)
              else df),
      bias_correct = bc\<rparr>"

definition predicted :: "TSData \<Rightarrow> real list" where
  "predicted d = map model (data d)"

definition observed :: "TSData \<Rightarrow> real list" where
  "observed d = map observation (data d)"

text \<open>\<^verbatim>\<open>bias\<close>: \<^verbatim>\<open>(self.predicted - self.observed).mean()\<close>.\<close>

definition bias :: "TSData \<Rightarrow> real option" where
  "bias d = mean (map2 (-) (predicted d) (observed d))"

text \<open>\<^verbatim>\<open>rmse\<close>: \<^verbatim>\<open>math.sqrt(np.square(self.predicted - self.observed).mean())\<close>.\<close>

definition rmse :: "TSData \<Rightarrow> real option" where
  "rmse d = map_option sqrt (mean (map (\<lambda>x. x ^ 2) (map2 (-) (predicted d) (observed d))))"

text \<open>
  \<^verbatim>\<open>
    def skill(self):
        n = (np.square(self.predicted - self.observed)).sum()
        om = self.observed.mean()
        d = (self.predicted - om).abs() + (self.observed - om).abs()
        d = np.square(d).sum()
        return 1 - n/d
  \<close>

  The quotient \<^verbatim>\<open>n/d\<close> of two numpy floats is NaN or infinite for \<open>d = 0\<close>.
\<close>

definition skill :: "TSData \<Rightarrow> real option" where
  "skill d =
     (let n = sum_list (map (\<lambda>x. x ^ 2) (map2 (-) (predicted d) (observed d))) in
      case mean (observed d) of
        None \<Rightarrow> None
      | Some om \<Rightarrow>
          (let dd = sum_list (map (\<lambda>x. x ^ 2)
                      (map2 (+) (map (\<lambda>p. \<bar>p - om\<bar>) (predicted d))
                                (map (\<lambda>ob. \<bar>ob - om\<bar>) (observed d))))
           in if dd = 0 then None else Some (1 - n / dd)))"

text \<open>
  \<^verbatim>\<open>corr\<close> is \<^verbatim>\<open>pearsonr(self.predicted, self.observed)\<close>, of which \<^verbatim>\<open>main\<close> reads the
  first component, the coefficient. \<^verbatim>\<open>scipy.stats.pearsonr\<close> is a library function; its
  coefficient is modelled as the library computes it: ValueError for fewer than two
  points or for two lengths, NaN for a constant input, and otherwise the inner product
  of the two centred and normalised vectors, clipped to \<open>[-1, 1]\<close>.
\<close>

definition centred :: "real list \<Rightarrow> real list" where
  "centred xs = map (\<lambda>x. x - sum_list xs / real (length xs)) xs"

definition norm2 :: "real list \<Rightarrow> real" where
  "norm2 xs = sqrt (sum_list (map (\<lambda>x. x ^ 2) xs))"

definition constant_input :: "real list \<Rightarrow> bool" where
  "constant_input xs = (\<forall>x \<in> set xs. x = hd xs)"

definition pearsonr :: "real list \<Rightarrow> real list \<Rightarrow> error + real option" where
  "pearsonr x y =
     (if length x \<noteq> length y then Inl ValueError
      else if length x < 2 then Inl ValueError
      else if constant_input x \<or> constant_input y then Inr None
      else
        (let xm = centred x; ym = centred y;
             r = sum_list (map2 (*) (map (\<lambda>v. v / norm2 xm) xm) (map (\<lambda>v. v / norm2 ym) ym))
         in Inr (Some (max (min r 1) (- 1)))))"

definition corr :: "TSData \<Rightarrow> error + real option" where
  "corr d = pearsonr (predicted d) (observed d)"

text \<open>
  \<^verbatim>\<open>range\<close> is \<^verbatim>\<open>self.data.max() - self.data.min()\<close>, column by column; \<^verbatim>\<open>nrmse\<close> reads
  its observation column: \<^verbatim>\<open>100 * self.rmse()/self.range().observation\<close>.
\<close>

definition range_observation :: "TSData \<Rightarrow> real option" where
  "range_observation d =
     (if observed d = [] then None
      else Some (Max (set (observed d)) - Min (set (observed d))))"

definition nrmse :: "TSData \<Rightarrow> real option" where
  "nrmse d =
     (case (rmse d, range_observation d) of
        (Some e, Some rg) \<Rightarrow> if rg = 0 then None else Some (100 * e / rg)
      | _ \<Rightarrow> None)"

subsection \<open>Arrays and frames as objects in a store\<close>

text \<open>
  numpy arrays and pandas frames are objects: a function that assigns into its argument
  changes what the caller holds. To say which objects a function changes, the objects
  live in a store, a list of cells addressed by position; creating an object appends a
  cell and gives its address.
\<close>

type_synonym 'a store = "'a list"

definition alloc :: "'a store \<Rightarrow> 'a \<Rightarrow> nat \<times> 'a store" where
  "alloc s v = (length s, s @ [v])"

text \<open>
  \<^verbatim>\<open>phase_correct\<close> on the store: the two masked assignments of lines 183 and 184 write
  into the array \<open>pdiff\<close> itself, and line 185 returns that array.
\<close>

definition phase_correct_inplace :: "nat \<Rightarrow> real list store \<Rightarrow> nat \<times> real list store" where
  "phase_correct_inplace pdiff s =
     (let s1 = s[pdiff := map fold_high (s ! pdiff)];
          s2 = s1[pdiff := map fold_low (s1 ! pdiff)]
      in (pdiff, s2))"

text \<open>
  \<^verbatim>\<open>mae_phase\<close> and \<^verbatim>\<open>mean_rmse\<close> on the store. The differences \<^verbatim>\<open>obs - model\<close> and
  \<^verbatim>\<open>Pm - Pn\<close> are new arrays; \<^verbatim>\<open>phase_correct\<close> is called on them. \<^verbatim>\<open>np.abs\<close>, the
  arithmetic of \<^verbatim>\<open>tmp\<close> and \<^verbatim>\<open>np.sqrt\<close> make new arrays too.
\<close>

definition mae_phase_st :: "nat \<Rightarrow> nat \<Rightarrow> real list store \<Rightarrow> real option \<times> real list store" where
  "mae_phase_st mdl obs s =
     (let (d, s1) = alloc s (map2 (-) (s ! obs) (s ! mdl));
          (r, s2) = phase_correct_inplace d s1;
          (tmp, s3) = alloc s2 (map abs (s2 ! r))
      in (mean (s3 ! tmp), s3))"

definition mean_rmse_st ::
  "nat \<Rightarrow> nat \<Rightarrow> nat \<Rightarrow> nat \<Rightarrow> real list store \<Rightarrow> real option \<times> real list store" where
  "mean_rmse_st Am An Pm Pn s =
     (let (d, s1) = alloc s (map2 (-) (s ! Pm) (s ! Pn));
          (r, s2) = phase_correct_inplace d s1;
          (tmp, s3) = alloc s2
             (map2 (-)
                (map (\<lambda>x. 0.5 * x)
                   (map2 (+) (map (\<lambda>a. a ^ 2) (s2 ! Am)) (map (\<lambda>a. a ^ 2) (s2 ! An))))
                (map2 (*) (map2 (*) (s2 ! Am) (s2 ! An))
                   (map (\<lambda>x. cos (pi * x / 180)) (s2 ! r))));
          (rt, s4) = alloc s3 (map sqrt (s3 ! tmp))
      in (mean (s4 ! rt), s4))"

text \<open>
  The phase panel of \<^verbatim>\<open>amplitude_plot\<close>, lines 344 to 374. A frame of constituent
  estimates is a list of rows. \<^verbatim>\<open>model[model.constituent == c]\<close> selects rows by a
  boolean mask, which makes a new frame; the two assignments through \<^verbatim>\<open>.loc\<close> write
  into these new frames \<open>M\<close> and \<open>O\<close>; \<open>amplitude_plot_step\<close> is one pass of the loop
  over \<^verbatim>\<open>PLOT_CONSTITUENTS\<close>. The two frames list the same stations in the same
  order (both are built from the same list \<^verbatim>\<open>tidal_summary\<close>), so the difference of
  the phase columns and the masks are taken by position. Drawing is not modelled.
\<close>

record estimate =
  station :: string
  constituent :: string
  speed :: real
  amplitude :: real
  phase :: real

fun add360_where :: "bool list \<Rightarrow> estimate list \<Rightarrow> estimate list" where
  "add360_where (m # ms) (r # rs) =
     (if m then r\<lparr>phase := phase r + 360\<rparr> else r) # add360_where ms rs"
| "add360_where ms rs = rs"

definition amplitude_plot_step :: "string \<Rightarrow> nat \<Rightarrow> nat \<Rightarrow> estimate list store \<Rightarrow> estimate list store" where
  "amplitude_plot_step c mdl obs s =
     (let (M, s1) = alloc s (filter (\<lambda>r. constituent r = c) (s ! mdl));
          (Ob, s2) = alloc s1 (filter (\<lambda>r. constituent r = c) (s1 ! obs))
      in if s2 ! M = [] \<or> s2 ! Ob = [] then s2
         else
           (let diff = map2 (-) (map phase (s2 ! M)) (map phase (s2 ! Ob));
                s3 = s2[M := add360_where (map (\<lambda>x. x < - 180) diff) (s2 ! M)];
                s4 = s3[Ob := add360_where (map (\<lambda>x. x > 180) diff) (s3 ! Ob)]
            in s4))"

fun amplitude_plot_loop ::
  "string list \<Rightarrow> nat \<Rightarrow> nat \<Rightarrow> estimate list store \<Rightarrow> estimate list store" where
  "amplitude_plot_loop [] mdl obs s = s"
| "amplitude_plot_loop (c # cs) mdl obs s =
     amplitude_plot_loop cs mdl obs (amplitude_plot_step c mdl obs s)"

definition amplitude_plot :: "nat \<Rightarrow> nat \<Rightarrow> estimate list store \<Rightarrow> estimate list store" where
  "amplitude_plot mdl obs s = amplitude_plot_loop PLOT_CONSTITUENTS mdl obs s"

subsection \<open>Time series and the choice of the resampling direction\<close>

text \<open>
  A series is a frame with a time index and one column: a list of timestamps, in whole
  seconds, each with a value or NaN (\<open>None\<close>), in the order of the rows.
\<close>

type_synonym series = "(int \<times> real option) list"

text \<open>
  \<^verbatim>\<open>
  def higher_resolution(df1, df2):
      def mode(data):
          values, counts = np.unique(np.diff(data), return_counts=True)
          return values[counts.argmax()]
      if mode(df1.index) < mode(df2.index):
          return df1
      else:
          return df2
  \<close>

  \<^verbatim>\<open>np.diff\<close> gives the differences of consecutive timestamps, \<^verbatim>\<open>np.unique\<close> their
  distinct values in ascending order with the number of occurrences of each, and
  \<^verbatim>\<open>argmax\<close> the position of the first greatest count: the mode is the smallest of the
  most frequent differences. With fewer than two timestamps there is no difference and
  \<^verbatim>\<open>argmax\<close> raises ValueError.
\<close>

definition np_diff :: "int list \<Rightarrow> int list" where
  "np_diff t = map2 (\<lambda>a b. b - a) t (tl t)"

definition np_unique_counts :: "int list \<Rightarrow> (int \<times> nat) list" where
  "np_unique_counts xs = map (\<lambda>v. (v, count_list xs v)) (sort (remdups xs))"

fun first_max :: "int \<times> nat \<Rightarrow> (int \<times> nat) list \<Rightarrow> int" where
  "first_max best [] = fst best"
| "first_max best (vc # rest) =
     (if snd vc > snd best then first_max vc rest else first_max best rest)"

definition mode :: "int list \<Rightarrow> error + int" where
  "mode t =
     (case np_unique_counts (np_diff t) of
        [] \<Rightarrow> Inl ValueError
      | vc # rest \<Rightarrow> Inr (first_max vc rest))"

text \<open>
  The function returns one of its two arguments and \<^verbatim>\<open>main\<close> tests the result with
  \<^verbatim>\<open>is\<close>, the identity of objects. The model returns which argument it is.
\<close>

datatype which = First | Second

definition higher_resolution :: "series \<Rightarrow> series \<Rightarrow> error + which" where
  "higher_resolution df1 df2 =
     (case mode (map fst df1) of
        Inl e \<Rightarrow> Inl e
      | Inr m1 \<Rightarrow>
          (case mode (map fst df2) of
             Inl e \<Rightarrow> Inl e
           | Inr m2 \<Rightarrow> Inr (if m1 < m2 then First else Second)))"

subsection \<open>The pandas operations of the alignment\<close>

text \<open>
  \<^verbatim>\<open>asfreq\<close>, \<^verbatim>\<open>resample(...).asfreq()\<close>, \<^verbatim>\<open>resample(...).interpolate(method='linear')\<close>,
  \<^verbatim>\<open>join(how='inner')\<close> and \<^verbatim>\<open>dropna\<close> are functions of the pandas library. They are
  modelled for a series whose timestamps increase strictly (a step that is not positive,
  a repeated or a decreasing timestamp are ValueError here), as follows.

  \<^item> Reindexing a series on a list of timestamps gives, for each of them, the value
    the series has at exactly that timestamp, and NaN where it has none.
  \<^item> \<^verbatim>\<open>s.asfreq(freq)\<close> reindexes on the timestamps from the first one of \<open>s\<close> to its
    last one in steps of \<open>freq\<close>.
  \<^item> \<^verbatim>\<open>s.resample(freq, origin=o).asfreq()\<close> reindexes on the grid \<open>o + k * freq\<close>, from
    the grid point at or before the first timestamp of \<open>s\<close> to the one at or before
    its last.
  \<^item> \<^verbatim>\<open>s.resample(freq, origin=o).interpolate(method='linear')\<close> is the same followed by
    the linear filling of the NaN values: a run of NaN between two values gets equally
    spaced values, NaN before the first value stay, NaN after the last value get the
    last value.
\<close>

definition lookup :: "series \<Rightarrow> int \<Rightarrow> real option" where
  "lookup s t = (case map_of s t of None \<Rightarrow> None | Some v \<Rightarrow> v)"

definition reindex :: "series \<Rightarrow> int list \<Rightarrow> series" where
  "reindex s ts = map (\<lambda>t. (t, lookup s t)) ts"

definition grid :: "int \<Rightarrow> int \<Rightarrow> int \<Rightarrow> int list" where
  "grid lo hi freq = map (\<lambda>k. lo + int k * freq) [0 ..< nat ((hi - lo) div freq + 1)]"

definition strictly_increasing :: "int list \<Rightarrow> bool" where
  "strictly_increasing ts = sorted_wrt (<) ts"

definition asfreq :: "int \<Rightarrow> series \<Rightarrow> error + series" where
  "asfreq freq s =
     (if freq \<le> 0 \<or> \<not> strictly_increasing (map fst s) then Inl ValueError
      else if s = [] then Inr []
      else Inr (reindex s (grid (fst (hd s)) (fst (last s)) freq)))"

definition resample_asfreq :: "int \<Rightarrow> int \<Rightarrow> series \<Rightarrow> error + series" where
  "resample_asfreq freq origin s =
     (if freq \<le> 0 \<or> \<not> strictly_increasing (map fst s) then Inl ValueError
      else if s = [] then Inr []
      else
        (let lo = origin + ((fst (hd s) - origin) div freq) * freq;
             hi = origin + ((fst (last s) - origin) div freq) * freq
         in Inr (reindex s (grid lo hi freq))))"

fun next_valid :: "real option list \<Rightarrow> (nat \<times> real) option" where
  "next_valid [] = None"
| "next_valid (Some v # xs) = Some (0, v)"
| "next_valid (None # xs) = map_option (\<lambda>(j, v). (Suc j, v)) (next_valid xs)"

text \<open>
  \<open>interp_fill prev k xs\<close>: \<open>prev\<close> is the last value seen, \<open>k\<close> the number of NaN passed
  since. A NaN that has \<open>j\<close> more NaN before the next value \<open>b\<close> lies at position
  \<open>k + 1\<close> of the \<open>k + j + 2\<close> steps from \<open>prev\<close> to \<open>b\<close>.
\<close>

fun interp_fill :: "real option \<Rightarrow> nat \<Rightarrow> real option list \<Rightarrow> real option list" where
  "interp_fill prev k [] = []"
| "interp_fill prev k (Some v # xs) = Some v # interp_fill (Some v) 0 xs"
| "interp_fill prev k (None # xs) =
     (case prev of
        None \<Rightarrow> None
      | Some a \<Rightarrow>
          (case next_valid xs of
             None \<Rightarrow> Some a
           | Some (j, b) \<Rightarrow> Some (a + (b - a) * real (k + 1) / real (k + j + 2))))
     # interp_fill prev (Suc k) xs"

definition interpolate :: "series \<Rightarrow> series" where
  "interpolate s = zip (map fst s) (interp_fill None 0 (map snd s))"

definition resample_interpolate :: "int \<Rightarrow> int \<Rightarrow> series \<Rightarrow> error + series" where
  "resample_interpolate freq origin s =
     (case resample_asfreq freq origin s of
        Inl e \<Rightarrow> Inl e
      | Inr r \<Rightarrow> Inr (interpolate r))"

text \<open>
  Line 593, \<^verbatim>\<open>model_data.join(obs_data, how='inner').sort_index().dropna()\<close>: the rows
  of the model's frame whose timestamp the observations' frame has too, with both
  values present, in the order of time. The observations' frame comes from a
  reindexing, so it has each timestamp once.
\<close>

definition join_dropna :: "series \<Rightarrow> series \<Rightarrow> row list" where
  "join_dropna model_data obs_data =
     sort_key time
       (concat (map (\<lambda>(t, mv).
          (case (mv, lookup obs_data t) of
             (Some m, Some ob) \<Rightarrow> [\<lparr>time = t, model = m, observation = ob\<rparr>]
           | _ \<Rightarrow> [])) model_data))"

subsection \<open>The alignment in main\<close>

text \<open>
  Lines 580 to 593 of \<^verbatim>\<open>main\<close>. \<open>modelfreq\<close> is computed at line 567, before the
  observations are read.

  \<^verbatim>\<open>
        obsfreq = obs.index[1] - obs.index[0]
        if higher_resolution(obs, model) is obs:
            obs_data = obs.resample(modelfreq, origin=model.index[0]).asfreq()
            model_data = model
        else:
            model_data = model.resample(obsfreq, origin=obs.index[0]).interpolate(method='linear')
            obs_data = obs.asfreq(obsfreq)
        joined = model_data.join(obs_data, how='inner').sort_index().dropna()
  \<close>

  \<open>resample_pair\<close> gives \<open>(obs_data, model_data)\<close>, \<open>align\<close> the joined frame.
\<close>

definition resample_pair :: "series \<Rightarrow> series \<Rightarrow> int \<Rightarrow> error + (series \<times> series)" where
  "resample_pair obs mdl modelfreq =
     (case (obs, mdl) of
        ((t0, _) # (t1, _) # _, (m0, _) # _) \<Rightarrow>
          (let obsfreq = t1 - t0 in
           case higher_resolution obs mdl of
             Inl e \<Rightarrow> Inl e
           | Inr First \<Rightarrow>
               (case resample_asfreq modelfreq m0 obs of
                  Inl e \<Rightarrow> Inl e
                | Inr obs_data \<Rightarrow> Inr (obs_data, mdl))
           | Inr Second \<Rightarrow>
               (case resample_interpolate obsfreq t0 mdl of
                  Inl e \<Rightarrow> Inl e
                | Inr model_data \<Rightarrow>
                    (case asfreq obsfreq obs of
                       Inl e \<Rightarrow> Inl e
                     | Inr obs_data \<Rightarrow> Inr (obs_data, model_data))))
      | _ \<Rightarrow> Inl IndexError)"

definition align :: "series \<Rightarrow> series \<Rightarrow> int \<Rightarrow> error + row list" where
  "align obs mdl modelfreq =
     (case resample_pair obs mdl modelfreq of
        Inl e \<Rightarrow> Inl e
      | Inr (obs_data, model_data) \<Rightarrow> Inr (join_dropna model_data obs_data))"

text \<open>
  The regular grid of \<open>n\<close> timestamps that starts at \<open>t0\<close> with the step \<open>f\<close>, for the
  statement about two series that share one.
\<close>

definition regular_grid :: "int \<Rightarrow> int \<Rightarrow> nat \<Rightarrow> int list" where
  "regular_grid t0 f n = map (\<lambda>k. t0 + int k * f) [0 ..< n]"


subsection \<open>The station loop of main\<close>











subsection \<open>Facts about the table and the selection\<close>

lemma MINHOURS_positive: "MINHOURS_get c = Some h \<Longrightarrow> 12 \<le> h"
proof -
  assume "MINHOURS_get c = Some h"
  then have "(c, h) \<in> set MINHOURS"
    unfolding MINHOURS_get_def by (rule map_of_SomeD)
  then show "12 \<le> h"
    unfolding MINHOURS_def by auto
qed

lemma keep_constituent_iff:
  "keep_constituent thrs c =
     (case MINHOURS_get c of Some h \<Rightarrow> real h \<le> thrs | None \<Rightarrow> 24 * 366 \<le> thrs)"
proof (cases "MINHOURS_get c")
  case None
  then show ?thesis by (simp add: keep_constituent_def)
next
  case (Some h)
  then have "h \<noteq> 0" using MINHOURS_positive [of c h] by simp
  with Some show ?thesis by (simp add: keep_constituent_def)
qed

lemma select_loop_filter:
  "select_loop cs thrs acc = acc @ filter (keep_constituent thrs) cs"
  by (induction cs arbitrary: acc) simp_all

lemma constituents_for_filter:
  "constituents_for cat thrs = filter (keep_constituent thrs) cat"
  by (simp add: constituents_for_def select_loop_filter)

lemma keep_constituent_mono:
  "h1 \<le> h2 \<Longrightarrow> keep_constituent h1 c \<Longrightarrow> keep_constituent h2 c"
  by (auto simp: keep_constituent_iff split: option.splits)

text \<open>
  Claim C4. For every record length \<open>d\<close> in hours the selection returns, in the order of
  the catalogue, exactly the catalogue's constituents whose declared threshold is at most
  \<open>d\<close>, together with, when \<open>d \<ge> 24 * 366\<close>, those with no declared threshold; a
  constituent with no declared threshold is left out whenever \<open>d < 24 * 366\<close>. The
  selection is a total function with no error result, and the empty list is one of its
  values.
\<close>

theorem constituents_for_exact:
  "constituents_for cat d =
     filter (\<lambda>c. case MINHOURS_get c of Some h \<Rightarrow> real h \<le> d | None \<Rightarrow> 24 * 366 \<le> d) cat
   \<and> (d < 24 * 366 \<longrightarrow> (\<forall>c \<in> set (constituents_for cat d). MINHOURS_get c \<noteq> None))
   \<and> (d < 12 \<longrightarrow> constituents_for cat d = [])"
proof (intro conjI impI)
  show eq: "constituents_for cat d =
     filter (\<lambda>c. case MINHOURS_get c of Some h \<Rightarrow> real h \<le> d | None \<Rightarrow> 24 * 366 \<le> d) cat"
    by (simp add: constituents_for_filter keep_constituent_iff [abs_def])
  show "\<forall>c \<in> set (constituents_for cat d). MINHOURS_get c \<noteq> None" if "d < 24 * 366"
    using that by (auto simp: eq split: option.splits)
  show "constituents_for cat d = []" if "d < 12"
  proof -
    have "\<not> keep_constituent d c" for c
    proof (cases "MINHOURS_get c")
      case None
      with that show ?thesis by (simp add: keep_constituent_iff)
    next
      case (Some h)
      then have "12 \<le> h" by (rule MINHOURS_positive)
      then have "(12::real) \<le> real h" by simp
      with that Some show ?thesis by (simp add: keep_constituent_iff)
    qed
    then show ?thesis by (simp add: constituents_for_filter)
  qed
qed

theorem constituents_for_exact_witness:
  "constituents_for [''Z0'', ''M2'', ''K1'', ''S2'', ''SA''] 100 = [''M2'', ''K1'']
   \<and> constituents_for [''Z0'', ''M2'', ''K1'', ''S2'', ''SA''] (24 * 366)
       = [''Z0'', ''M2'', ''K1'', ''S2'', ''SA'']
   \<and> constituents_for [''Z0'', ''M2'', ''K1'', ''S2'', ''SA''] 5 = []"
  using constituents_for_exact [of "[''Z0'', ''M2'', ''K1'', ''S2'', ''SA'']" 100]
    constituents_for_exact [of "[''Z0'', ''M2'', ''K1'', ''S2'', ''SA'']" "24 * 366"]
    constituents_for_exact [of "[''Z0'', ''M2'', ''K1'', ''S2'', ''SA'']" 5]
  by (simp add: MINHOURS_get_def MINHOURS_def)

text \<open>
  Claim C5. The selection is monotone in the record length: with \<open>hours1 \<le> hours2\<close>,
  every constituent selected for \<open>hours1\<close> is selected for \<open>hours2\<close>.
\<close>

theorem constituents_for_mono:
  "hours1 \<le> hours2 \<Longrightarrow>
     set (constituents_for cat hours1) \<subseteq> set (constituents_for cat hours2)"
  by (auto simp: constituents_for_filter intro: keep_constituent_mono)

theorem constituents_for_mono_witness:
  "(100::real) \<le> 400
   \<and> set (constituents_for [''Z0'', ''M2'', ''K1'', ''S2'', ''SA''] 100)
       \<subseteq> set (constituents_for [''Z0'', ''M2'', ''K1'', ''S2'', ''SA''] 400)
   \<and> constituents_for [''Z0'', ''M2'', ''K1'', ''S2'', ''SA''] 400 = [''M2'', ''K1'', ''S2'']"
proof -
  have h: "(100::real) \<le> 400" by simp
  have "constituents_for [''Z0'', ''M2'', ''K1'', ''S2'', ''SA''] 400 = [''M2'', ''K1'', ''S2'']"
    by (simp add: constituents_for_def keep_constituent_def MINHOURS_get_def MINHOURS_def)
  with h constituents_for_mono [OF h, of "[''Z0'', ''M2'', ''K1'', ''S2'', ''SA'']"]
  show ?thesis by simp
qed

subsection \<open>The phase correction and the combined error\<close>

lemma circ_cases:
  "fold_low (fold_high d) =
     (if d > 540 then 720 - d else if d > 180 then 360 - d
      else if d < - 180 then 360 + d else d)"
  by (simp add: fold_low_def fold_high_def)

lemma circular_diff_eq: "circular_diff m ob = fold_low (fold_high (ob - m))"
  by (simp add: circular_diff_def phase_correct_def)

lemma circ_range:
  "(- 180 \<le> fold_low (fold_high d) \<and> fold_low (fold_high d) \<le> 180)
     \<longleftrightarrow> (- 540 \<le> d \<and> d \<le> 900)"
  by (auto simp: circ_cases)

lemma phase_correct_range:
  "(\<forall>x \<in> set (phase_correct ds). - 180 \<le> x \<and> x \<le> 180)
     \<longleftrightarrow> (\<forall>d \<in> set ds. - 540 \<le> d \<and> d \<le> 900)"
  by (simp add: phase_correct_def circ_range)

lemma sum_list_nth: "sum_list (xs::real list) = (\<Sum>i<length xs. xs ! i)"
  by (simp add: sum_list_sum_nth atLeast0LessThan)

text \<open>
  Claim C2, as stated, fails. For the phases 359 and 1 the correction returns 2 in both
  orders: the difference 358 is replaced by \<open>360 - 358\<close> and the difference \<open>-358\<close> by
  \<open>360 + (-358)\<close>. The result for the inputs 1 and 359 is 2, not \<open>-2\<close>.
\<close>

theorem circular_diff_counterexample:
  "circular_diff 359 1 = 2 \<and> circular_diff 1 359 = 2 \<and> circular_diff 1 359 \<noteq> - 2"
  by (simp add: circular_diff_eq circ_cases)

text \<open>
  Claim C2, amended. For two phases in \<open>[0, 360]\<close> the corrected difference lies in
  \<open>[-180, 180]\<close> and has the magnitude of the circular distance. A difference within
  \<open>[-180, 180]\<close> is returned unchanged, with its sign; one beyond is folded to the
  non-negative value \<open>360 - \<bar>d\<bar>\<close> whatever its sign. So the inputs 359 and 1 give 2 in
  both orders.
\<close>

theorem circular_diff_fold:
  "0 \<le> m \<Longrightarrow> m \<le> 360 \<Longrightarrow> 0 \<le> ob \<Longrightarrow> ob \<le> 360 \<Longrightarrow>
     - 180 \<le> circular_diff m ob \<and> circular_diff m ob \<le> 180
     \<and> \<bar>circular_diff m ob\<bar> = min \<bar>ob - m\<bar> (360 - \<bar>ob - m\<bar>)
     \<and> (\<bar>ob - m\<bar> \<le> 180 \<longrightarrow> circular_diff m ob = ob - m)
     \<and> (\<bar>ob - m\<bar> > 180 \<longrightarrow> circular_diff m ob = 360 - \<bar>ob - m\<bar>)"
  by (auto simp: circular_diff_eq circ_cases min_def abs_if)

theorem circular_diff_fold_witness:
  "circular_diff 1 359 = 2 \<and> circular_diff 359 1 = 2 \<and> circular_diff 350 20 = 30
   \<and> circular_diff 20 350 = 30 \<and> circular_diff 100 40 = - 60"
  using circular_diff_fold [of 1 359] circular_diff_fold [of 359 1]
    circular_diff_fold [of 350 20] circular_diff_fold [of 20 350]
    circular_diff_fold [of 100 40]
  by simp

text \<open>
  Claim C1, as stated, fails. \<^verbatim>\<open>mean_rmse\<close> takes the square root station by station
  and then averages. For two stations, with amplitudes 3 against 1 at the first, 1
  against 1 at the second and equal phases, the quantity under the root is 2 and 0:
  the code reports \<open>(sqrt 2 + 0) / 2\<close>, the formula of the claim gives
  \<open>sqrt ((2 + 0) / 2) = 1\<close>. The last line is the row that \<^verbatim>\<open>tidal_error\<close> writes for
  this constituent.
\<close>

lemma tidal_error_stats_rows:
  "tidal_error_stats Mt Ot cs = Inr rows \<Longrightarrow> (c, mae, mr) \<in> set rows \<Longrightarrow>
   \<exists>Pm Am Pn An. map_of Mt c = Some (Pm, Am) \<and> map_of Ot c = Some (Pn, An)
      \<and> mae = mae_phase Pm Pn \<and> mr = mean_rmse Am An Pm Pn"
proof (induction cs arbitrary: rows)
  case Nil
  then show ?case by simp
next
  case (Cons c' cs)
  from Cons.prems(1) obtain Pm Am Pn An rest where
    m: "map_of Mt c' = Some (Pm, Am)" "map_of Ot c' = Some (Pn, An)"
    and rest: "tidal_error_stats Mt Ot cs = Inr rest"
    and rows: "rows = (c', mae_phase Pm Pn, mean_rmse Am An Pm Pn) # rest"
    by (auto split: option.splits sum.splits prod.splits)
  from Cons.prems(2) rows consider
    "(c, mae, mr) = (c', mae_phase Pm Pn, mean_rmse Am An Pm Pn)" | "(c, mae, mr) \<in> set rest"
    by auto
  then show ?case
  proof cases
    case 1
    with m show ?thesis by simp
  next
    case 2
    with Cons.IH [OF rest] show ?thesis by simp
  qed
qed

lemma tidal_error_reports_mean_rmse:
  "tidal_error Mt Ot = Inr rows \<Longrightarrow> (c, mae, mr) \<in> set rows \<Longrightarrow>
   \<exists>Pm Am Pn An. map_of Mt c = Some (Pm, Am) \<and> map_of Ot c = Some (Pn, An)
      \<and> mr = mean_rmse Am An Pm Pn"
  unfolding tidal_error_def by (drule tidal_error_stats_rows) auto

lemma mean_rmse_tmp_example: "mean_rmse_tmp [3, 1] [1, 1] [10, 20] [10, 20] = [2, 0]"
  by (simp add: mean_rmse_tmp_def phase_correct_def fold_low_def fold_high_def)

theorem mean_rmse_counterexample:
  "mean_rmse [3, 1] [1, 1] [10, 20] [10, 20] = Some (sqrt 2 / 2)
   \<and> spec_combined_rmse [3, 1] [1, 1] [10, 20] [10, 20] = Some 1
   \<and> mean_rmse [3, 1] [1, 1] [10, 20] [10, 20]
       \<noteq> spec_combined_rmse [3, 1] [1, 1] [10, 20] [10, 20]
   \<and> tidal_error [(''M2'', [10, 20], [3, 1])] [(''M2'', [10, 20], [1, 1])]
       = Inr [(''M2'', Some 0, Some (sqrt 2 / 2))]"
proof -
  have "sqrt 2 < (2::real)" by (rule real_less_lsqrt) simp_all
  then have ne: "sqrt 2 / 2 \<noteq> 1" by simp
  have mr: "mean_rmse [3, 1] [1, 1] [10, 20] [10, 20] = Some (sqrt 2 / 2)"
    by (simp add: mean_rmse_def mean_rmse_tmp_example mean_def)
  have sp: "spec_combined_rmse [3, 1] [1, 1] [10, 20] [10, 20] = Some 1"
    by (simp add: spec_combined_rmse_def mean_rmse_tmp_example mean_def)
  have mae: "mae_phase [10, 20] [10, 20] = Some 0"
    by (simp add: mae_phase_def phase_correct_def fold_low_def fold_high_def mean_def)
  have "tidal_error [(''M2'', [10, 20], [3, 1])] [(''M2'', [10, 20], [1, 1])]
       = Inr [(''M2'', Some 0, Some (sqrt 2 / 2))]"
    by (simp add: tidal_error_def mr mae)
  with ne mr sp show ?thesis by simp
qed

text \<open>
  Claim C1, amended. For columns over the same, non-empty list of stations the combined
  error of a constituent is the mean over the stations of the square roots of
  \<open>0.5 * (A_model\<^sup>2 + A_obs\<^sup>2) - A_model * A_obs * cos (pi * dphase / 180)\<close>, where
  \<open>dphase\<close> is the corrected phase difference: the root is taken station by station,
  before the averaging.
\<close>

theorem mean_rmse_mean_of_roots:
  assumes "length An = length Am" "length Pm = length Am" "length Pn = length Am"
    and "Am \<noteq> []"
  shows "mean_rmse Am An Pm Pn =
     Some ((\<Sum>i<length Am.
              sqrt (0.5 * ((Am ! i)\<^sup>2 + (An ! i)\<^sup>2)
                    - Am ! i * An ! i * cos (pi * circular_diff (Pn ! i) (Pm ! i) / 180)))
           / real (length Am))"
proof -
  let ?t = "mean_rmse_tmp Am An Pm Pn"
  have len: "length ?t = length Am"
    using assms by (simp add: mean_rmse_tmp_def phase_correct_def)
  have nth: "?t ! i = 0.5 * ((Am ! i)\<^sup>2 + (An ! i)\<^sup>2)
                    - Am ! i * An ! i * cos (pi * circular_diff (Pn ! i) (Pm ! i) / 180)"
    if "i < length Am" for i
    using that assms by (simp add: mean_rmse_tmp_def phase_correct_def circular_diff_eq)
  have "sum_list (map sqrt ?t) = (\<Sum>i<length Am. sqrt (?t ! i))"
    by (simp add: sum_list_nth len)
  also have "\<dots> = (\<Sum>i<length Am.
              sqrt (0.5 * ((Am ! i)\<^sup>2 + (An ! i)\<^sup>2)
                    - Am ! i * An ! i * cos (pi * circular_diff (Pn ! i) (Pm ! i) / 180)))"
    by (rule sum.cong) (simp_all add: nth)
  finally show ?thesis
    using assms len by (auto simp: mean_rmse_def mean_def)
qed

theorem mean_rmse_mean_of_roots_witness:
  "mean_rmse [3, 1] [1, 1] [370, 20] [10, 20] = Some (sqrt 2 / 2)"
  using mean_rmse_mean_of_roots [of "[1, 1]" "[3, 1]" "[370, 20]" "[10, 20]"]
  by (simp add: circular_diff_eq circ_cases lessThan_Suc numeral_2_eq_2)

subsection \<open>Statistics of a perfect model, and the bias correction\<close>

lemma map2_same: "map2 f xs xs = map (\<lambda>x. f x x) xs"
  by (simp add: zip_same_conv_map)

lemma sum_list_map_divide:
  fixes f :: "'a \<Rightarrow> real"
  shows "sum_list (map (\<lambda>x. f x / c) xs) = sum_list (map f xs) / c"
  by (induction xs) (simp_all add: add_divide_distrib)

lemma sum_list_pos_member:
  fixes f :: "'a \<Rightarrow> real"
  assumes "\<forall>x \<in> set xs. 0 \<le> f x" "a \<in> set xs" "0 < f a"
  shows "0 < sum_list (map f xs)"
  using assms
proof (induction xs)
  case Nil
  then show ?case by simp
next
  case (Cons x xs)
  have nonneg: "0 \<le> sum_list (map f xs)"
    using Cons.prems(1) by (intro sum_list_nonneg) auto
  show ?case
  proof (cases "a = x")
    case True
    with Cons.prems(3) nonneg show ?thesis by simp
  next
    case False
    with Cons.prems have "a \<in> set xs" by simp
    with Cons have "0 < sum_list (map f xs)" by simp
    moreover have "0 \<le> f x" using Cons.prems(1) by simp
    ultimately show ?thesis by simp
  qed
qed

lemma nonconstant_centred_pos:
  assumes "a \<in> set xs" "b \<in> set xs" "a \<noteq> (b::real)"
  shows "0 < sum_list (map (\<lambda>x. x ^ 2) (centred xs))"
proof -
  let ?m = "sum_list xs / real (length xs)"
  obtain c where c: "c \<in> set xs" "c \<noteq> ?m"
    using assms by (cases "a = ?m") auto
  have "0 < sum_list (map (\<lambda>x. (x - ?m) ^ 2) xs)"
    by (rule sum_list_pos_member [where a = c]) (use c in auto)
  then show ?thesis
    by (simp add: centred_def comp_def)
qed

lemma nonconstant_not_constant_input:
  assumes "a \<in> set xs" "b \<in> set xs" "a \<noteq> b"
  shows "\<not> constant_input xs"
  using assms unfolding constant_input_def by metis

lemma nonconstant_length:
  assumes "a \<in> set xs" "b \<in> set xs" "a \<noteq> b"
  shows "2 \<le> length xs"
proof (cases xs)
  case Nil
  with assms show ?thesis by simp
next
  case (Cons x ys)
  with assms have "ys \<noteq> []" by auto
  with Cons show ?thesis by (cases ys) auto
qed

lemma nonconstant_range_pos:
  assumes "a \<in> set xs" "b \<in> set xs" "a \<noteq> (b::real)"
  shows "Min (set xs) < Max (set xs)"
proof -
  have "Min (set xs) \<le> min a b" using assms by (simp add: Min_le)
  moreover have "max a b \<le> Max (set xs)" using assms by simp
  moreover have "min a b < max a b" using assms by (simp add: min_def max_def)
  ultimately show ?thesis by linarith
qed

lemma pearsonr_same:
  assumes "a \<in> set xs" "b \<in> set xs" "a \<noteq> b"
  shows "pearsonr xs xs = Inr (Some 1)"
proof -
  let ?xm = "centred xs"
  let ?S = "sum_list (map (\<lambda>x. x ^ 2) ?xm)"
  have S: "0 < ?S" using assms by (rule nonconstant_centred_pos)
  have n2: "(norm2 ?xm)\<^sup>2 = ?S"
    unfolding norm2_def using S by simp
  have "sum_list (map2 (*) (map (\<lambda>v. v / norm2 ?xm) ?xm) (map (\<lambda>v. v / norm2 ?xm) ?xm))
      = sum_list (map (\<lambda>v. v ^ 2 / (norm2 ?xm)\<^sup>2) ?xm)"
    by (simp add: map2_same comp_def power2_eq_square)
  also have "\<dots> = ?S / (norm2 ?xm)\<^sup>2"
    by (simp add: sum_list_map_divide comp_def)
  also have "\<dots> = 1" using S n2 by simp
  finally have r: "sum_list (map2 (*) (map (\<lambda>v. v / norm2 ?xm) ?xm) (map (\<lambda>v. v / norm2 ?xm) ?xm)) = 1" .
  have "\<not> length xs < 2" using nonconstant_length [OF assms] by simp
  moreover have "\<not> constant_input xs" using assms by (rule nonconstant_not_constant_input)
  ultimately show ?thesis
    by (simp add: pearsonr_def Let_def r)
qed

text \<open>
  Claim C6. When the model column equals the observation column row by row and the
  observations are not all equal, the bias, the RMSE and the normalised RMSE are 0, and
  the skill score and the Pearson coefficient are 1. The hypothesis on the observations
  is what makes the three quotients defined.
\<close>

theorem perfect_model_statistics:
  assumes same: "\<forall>r \<in> set (data d). model r = observation r"
    and nonconst: "\<exists>a \<in> set (observed d). \<exists>b \<in> set (observed d). a \<noteq> b"
  shows "bias d = Some 0 \<and> rmse d = Some 0 \<and> nrmse d = Some 0 \<and> skill d = Some 1
         \<and> corr d = Inr (Some 1)"
proof -
  obtain a b where ab: "a \<in> set (observed d)" "b \<in> set (observed d)" "a \<noteq> b"
    using nonconst by blast
  have pred: "predicted d = observed d"
    using same by (simp add: predicted_def observed_def)
  have ne: "observed d \<noteq> []" using ab by auto
  have diff0: "map2 (-) (observed d) (observed d) = map (\<lambda>_. 0) (observed d)"
    by (simp add: map2_same)
  have b: "bias d = Some 0"
    using ne by (simp add: bias_def pred diff0 mean_def)
  have e: "rmse d = Some 0"
    using ne by (simp add: rmse_def pred diff0 mean_def comp_def)
  have rg: "range_observation d = Some (Max (set (observed d)) - Min (set (observed d)))"
    using ne by (simp add: range_observation_def)
  have "Min (set (observed d)) < Max (set (observed d))"
    using ab by (rule nonconstant_range_pos)
  then have nr: "nrmse d = Some 0"
    by (simp add: nrmse_def e rg)
  let ?om = "sum_list (observed d) / real (length (observed d))"
  have m: "mean (observed d) = Some ?om" using ne by (simp add: mean_def)
  have dd: "sum_list (map (\<lambda>x. x ^ 2)
              (map2 (+) (map (\<lambda>p. \<bar>p - ?om\<bar>) (observed d)) (map (\<lambda>ob. \<bar>ob - ?om\<bar>) (observed d))))
            = 4 * sum_list (map (\<lambda>x. x ^ 2) (centred (observed d)))"
    by (simp add: map2_same centred_def comp_def sum_list_const_mult [symmetric] power2_eq_square
        algebra_simps zip_map_map)
  have "0 < sum_list (map (\<lambda>x. x ^ 2) (centred (observed d)))"
    using ab by (rule nonconstant_centred_pos)
  with dd have "sum_list (map (\<lambda>x. x ^ 2)
              (map2 (+) (map (\<lambda>p. \<bar>p - ?om\<bar>) (observed d)) (map (\<lambda>ob. \<bar>ob - ?om\<bar>) (observed d)))) \<noteq> 0"
    by simp
  then have s: "skill d = Some 1"
    by (simp add: skill_def pred m diff0 Let_def comp_def)
  have c: "corr d = Inr (Some 1)"
    unfolding corr_def pred using ab by (rule pearsonr_same)
  from b e nr s c show ?thesis by simp
qed

theorem perfect_model_statistics_witness:
  "bias (TSData_init None ''8518750''
           [\<lparr>time = 0, model = 1, observation = 1\<rparr>, \<lparr>time = 3600, model = 2, observation = 2\<rparr>,
            \<lparr>time = 7200, model = 3, observation = 3\<rparr>, \<lparr>time = 10800, model = 4, observation = 4\<rparr>,
            \<lparr>time = 14400, model = 5, observation = 5\<rparr>] False) = Some 0
   \<and> rmse (TSData_init None ''8518750''
           [\<lparr>time = 0, model = 1, observation = 1\<rparr>, \<lparr>time = 3600, model = 2, observation = 2\<rparr>,
            \<lparr>time = 7200, model = 3, observation = 3\<rparr>, \<lparr>time = 10800, model = 4, observation = 4\<rparr>,
            \<lparr>time = 14400, model = 5, observation = 5\<rparr>] False) = Some 0
   \<and> nrmse (TSData_init None ''8518750''
           [\<lparr>time = 0, model = 1, observation = 1\<rparr>, \<lparr>time = 3600, model = 2, observation = 2\<rparr>,
            \<lparr>time = 7200, model = 3, observation = 3\<rparr>, \<lparr>time = 10800, model = 4, observation = 4\<rparr>,
            \<lparr>time = 14400, model = 5, observation = 5\<rparr>] False) = Some 0
   \<and> skill (TSData_init None ''8518750''
           [\<lparr>time = 0, model = 1, observation = 1\<rparr>, \<lparr>time = 3600, model = 2, observation = 2\<rparr>,
            \<lparr>time = 7200, model = 3, observation = 3\<rparr>, \<lparr>time = 10800, model = 4, observation = 4\<rparr>,
            \<lparr>time = 14400, model = 5, observation = 5\<rparr>] False) = Some 1
   \<and> corr (TSData_init None ''8518750''
           [\<lparr>time = 0, model = 1, observation = 1\<rparr>, \<lparr>time = 3600, model = 2, observation = 2\<rparr>,
            \<lparr>time = 7200, model = 3, observation = 3\<rparr>, \<lparr>time = 10800, model = 4, observation = 4\<rparr>,
            \<lparr>time = 14400, model = 5, observation = 5\<rparr>] False) = Inr (Some 1)"
proof -
  let ?d = "TSData_init None ''8518750''
           [\<lparr>time = 0, model = 1, observation = 1\<rparr>, \<lparr>time = 3600, model = 2, observation = 2\<rparr>,
            \<lparr>time = 7200, model = 3, observation = 3\<rparr>, \<lparr>time = 10800, model = 4, observation = 4\<rparr>,
            \<lparr>time = 14400, model = 5, observation = 5\<rparr>] False"
  have same: "\<forall>r \<in> set (data ?d). model r = observation r"
    by (simp add: TSData_init_def)
  have "1 \<in> set (observed ?d)" "2 \<in> set (observed ?d)" "(1::real) \<noteq> 2"
    by (simp_all add: TSData_init_def observed_def)
  then have nonconst: "\<exists>a \<in> set (observed ?d). \<exists>b \<in> set (observed ?d). a \<noteq> b"
    by blast
  from perfect_model_statistics [OF same nonconst] show ?thesis by simp
qed

lemma sum_list_map_shift:
  fixes f :: "'a \<Rightarrow> real"
  shows "sum_list (map (\<lambda>r. f r - c) xs) = sum_list (map f xs) - real (length xs) * c"
  by (induction xs) (simp_all add: algebra_simps)

lemma bias_shift:
  assumes "df \<noteq> []"
  shows "mean (map (\<lambda>r. model r - (observation r + sum_list (map (\<lambda>r. model r - observation r) df) / real (length df))) df) = Some 0"
proof -
  let ?s = "sum_list (map (\<lambda>r. model r - observation r) df) / real (length df)"
  have "sum_list (map (\<lambda>r. (model r - observation r) - ?s) df)
        = sum_list (map (\<lambda>r. model r - observation r) df) - real (length df) * ?s"
    by (rule sum_list_map_shift)
  also have "\<dots> = 0" using assms by simp
  finally have "sum_list (map (\<lambda>r. model r - (observation r + ?s)) df) = 0"
    by (simp add: diff_diff_eq)
  with assms show ?thesis by (simp add: mean_def)
qed

text \<open>
  Claim C10. A \<^verbatim>\<open>TSData\<close> built with the bias correction on, from a frame with at least
  one row, has bias 0: the constructor adds the mean of model minus observation to every
  observation, and the mean of the differences then cancels.
\<close>

theorem bias_correct_cancels:
  "df \<noteq> [] \<Longrightarrow> bias (TSData_init dt sid df True) = Some 0"
proof -
  assume ne: "df \<noteq> []"
  let ?s = "sum_list (map (\<lambda>r. model r - observation r) df) / real (length df)"
  have d: "data (TSData_init dt sid df True) = map (\<lambda>r. r\<lparr>observation := observation r + ?s\<rparr>) df"
    using ne by (simp add: TSData_init_def mean_def)
  have "map2 (-) (predicted (TSData_init dt sid df True)) (observed (TSData_init dt sid df True))
        = map (\<lambda>r. model r - (observation r + ?s)) df"
    by (simp add: predicted_def observed_def d zip_map_map comp_def map2_same zip_same_conv_map)
  then show ?thesis
    using bias_shift [OF ne] by (simp add: bias_def)
qed

theorem bias_correct_cancels_witness:
  "[\<lparr>time = 0, model = 2, observation = 1\<rparr>, \<lparr>time = 3600, model = 5, observation = 1\<rparr>] \<noteq> []
   \<and> bias (TSData_init None ''8518750''
        [\<lparr>time = 0, model = 2, observation = 1\<rparr>, \<lparr>time = 3600, model = 5, observation = 1\<rparr>] True) = Some 0
   \<and> bias (TSData_init None ''8518750''
        [\<lparr>time = 0, model = 2, observation = 1\<rparr>, \<lparr>time = 3600, model = 5, observation = 1\<rparr>] False) = Some (5 / 2)
   \<and> observed (TSData_init None ''8518750''
        [\<lparr>time = 0, model = 2, observation = 1\<rparr>, \<lparr>time = 3600, model = 5, observation = 1\<rparr>] True) = [7 / 2, 7 / 2]"
  using bias_correct_cancels [of "[\<lparr>time = 0, model = 2, observation = 1\<rparr>, \<lparr>time = 3600, model = 5, observation = 1\<rparr>]" None "''8518750''"]
  by (simp add: TSData_init_def bias_def predicted_def observed_def mean_def)

subsection \<open>What the stages change in the store\<close>

lemma phase_correct_inplace_eq:
  "phase_correct_inplace p s = (p, s[p := phase_correct (s ! p)])"
  by (cases "p < length s")
    (simp_all add: phase_correct_inplace_def phase_correct_def Let_def list_update_beyond)

lemma mae_phase_st_store:
  "\<exists>ext. snd (mae_phase_st mdl obs s) = s @ ext"
  by (simp add: mae_phase_st_def alloc_def phase_correct_inplace_eq list_update_append)

lemma mean_rmse_st_store:
  "\<exists>ext. snd (mean_rmse_st Am An Pm Pn s) = s @ ext"
  by (simp add: mean_rmse_st_def alloc_def phase_correct_inplace_eq list_update_append)

lemma mae_phase_st_value:
  "mdl < length s \<Longrightarrow> obs < length s \<Longrightarrow> fst (mae_phase_st mdl obs s) = mae_phase (s ! mdl) (s ! obs)"
  by (simp add: mae_phase_st_def alloc_def phase_correct_inplace_eq mae_phase_def)

lemma mean_rmse_st_value:
  "Am < length s \<Longrightarrow> An < length s \<Longrightarrow> Pm < length s \<Longrightarrow> Pn < length s \<Longrightarrow>
   fst (mean_rmse_st Am An Pm Pn s) = mean_rmse (s ! Am) (s ! An) (s ! Pm) (s ! Pn)"
  by (simp add: mean_rmse_st_def alloc_def phase_correct_inplace_eq mean_rmse_def mean_rmse_tmp_def
      nth_append list_update_append)

lemma amplitude_plot_step_store:
  "\<exists>ext. amplitude_plot_step c mdl obs s = s @ ext"
  by (simp add: amplitude_plot_step_def alloc_def Let_def list_update_append)

lemma amplitude_plot_loop_store:
  "\<exists>ext. amplitude_plot_loop cs mdl obs s = s @ ext"
proof (induction cs arbitrary: s)
  case Nil
  then show ?case by simp
next
  case (Cons c cs)
  obtain e1 where e1: "amplitude_plot_step c mdl obs s = s @ e1"
    using amplitude_plot_step_store by blast
  obtain e2 where "amplitude_plot_loop cs mdl obs (s @ e1) = (s @ e1) @ e2"
    using Cons.IH by blast
  with e1 show ?case by simp
qed

lemma circ_fixed: "fold_low (fold_high x) = x \<longleftrightarrow> - 180 \<le> x \<and> x \<le> 180"
  by (auto simp: circ_cases)

lemma phase_correct_fixed:
  "phase_correct xs = xs \<longleftrightarrow> (\<forall>x \<in> set xs. - 180 \<le> x \<and> x \<le> 180)"
  by (induction xs) (auto simp: phase_correct_def circ_fixed)

text \<open>
  Claim C9, as stated, fails. \<^verbatim>\<open>phase_correct\<close> assigns into its argument: called on
  the array \<open>[358, 10]\<close> it returns that array, which then holds \<open>[2, 10]\<close>.
\<close>

theorem phase_correct_inplace_counterexample:
  "phase_correct_inplace 0 [[358, 10]] = (0, [[2, 10]])
   \<and> snd (phase_correct_inplace 0 [[358, 10]]) ! 0 \<noteq> [[358, 10]] ! 0"
  by (simp add: phase_correct_inplace_def fold_high_def fold_low_def)

text \<open>
  Claim C9, amended. The phase correction overwrites its argument in place and returns
  the same array: after the call the array holds the corrected values, and it holds its
  old values exactly when every entry already lay in \<open>[-180, 180]\<close>. The callers
  \<^verbatim>\<open>mae_phase\<close> and \<^verbatim>\<open>mean_rmse\<close> pass it a newly computed difference, so the
  constituent-wise statistics leave every array that existed before the call as it was;
  \<^verbatim>\<open>amplitude_plot\<close> shifts phases only in the filtered copies and leaves every frame
  that existed before the call as it was.
\<close>

theorem stages_store_effect:
  "phase_correct_inplace p s = (p, s[p := phase_correct (s ! p)])
   \<and> (p < length s \<longrightarrow>
        (snd (phase_correct_inplace p s) ! p = s ! p
           \<longleftrightarrow> (\<forall>x \<in> set (s ! p). - 180 \<le> x \<and> x \<le> 180)))
   \<and> take (length s) (snd (mae_phase_st mdl obs s)) = s
   \<and> take (length s) (snd (mean_rmse_st Am An Pm Pn s)) = s
   \<and> take (length fs) (amplitude_plot mt ot fs) = fs"
proof (intro conjI impI)
  show "phase_correct_inplace p s = (p, s[p := phase_correct (s ! p)])"
    by (rule phase_correct_inplace_eq)
  show "snd (phase_correct_inplace p s) ! p = s ! p
           \<longleftrightarrow> (\<forall>x \<in> set (s ! p). - 180 \<le> x \<and> x \<le> 180)" if "p < length s"
    using that by (simp add: phase_correct_inplace_eq phase_correct_fixed)
  show "take (length s) (snd (mae_phase_st mdl obs s)) = s"
    using mae_phase_st_store [of mdl obs s] by auto
  show "take (length s) (snd (mean_rmse_st Am An Pm Pn s)) = s"
    using mean_rmse_st_store [of Am An Pm Pn s] by auto
  show "take (length fs) (amplitude_plot mt ot fs) = fs"
    using amplitude_plot_loop_store [of PLOT_CONSTITUENTS mt ot fs]
    by (auto simp: amplitude_plot_def)
qed

theorem stages_store_effect_witness:
  "phase_correct_inplace 0 [[358, 10], [- 350, 5]] = (0, [[2, 10], [- 350, 5]])
   \<and> snd (phase_correct_inplace 1 [[90, 10], [- 35, 5]]) ! 1 = [- 35, 5]
   \<and> mae_phase_st 0 1 [[359, 10], [1, 40]] = (Some 16, [[359, 10], [1, 40], [2, 30], [2, 30]])
   \<and> take 2 (snd (mean_rmse_st 0 1 0 1 [[359, 10], [1, 40]])) = [[359, 10], [1, 40]]
   \<and> take 2 (amplitude_plot 0 1
        [[\<lparr>station = ''A'', constituent = ''M2'', speed = 29, amplitude = 1, phase = 10\<rparr>],
         [\<lparr>station = ''A'', constituent = ''M2'', speed = 29, amplitude = 1, phase = 350\<rparr>]])
      = [[\<lparr>station = ''A'', constituent = ''M2'', speed = 29, amplitude = 1, phase = 10\<rparr>],
         [\<lparr>station = ''A'', constituent = ''M2'', speed = 29, amplitude = 1, phase = 350\<rparr>]]
   \<and> amplitude_plot_step ''M2'' 0 1
        [[\<lparr>station = ''A'', constituent = ''M2'', speed = 29, amplitude = 1, phase = 10\<rparr>],
         [\<lparr>station = ''A'', constituent = ''M2'', speed = 29, amplitude = 1, phase = 350\<rparr>]]
      = [[\<lparr>station = ''A'', constituent = ''M2'', speed = 29, amplitude = 1, phase = 10\<rparr>],
         [\<lparr>station = ''A'', constituent = ''M2'', speed = 29, amplitude = 1, phase = 350\<rparr>],
         [\<lparr>station = ''A'', constituent = ''M2'', speed = 29, amplitude = 1, phase = 370\<rparr>],
         [\<lparr>station = ''A'', constituent = ''M2'', speed = 29, amplitude = 1, phase = 350\<rparr>]]"
proof -
  have step: "amplitude_plot_step ''M2'' 0 1
        [[\<lparr>station = ''A'', constituent = ''M2'', speed = 29, amplitude = 1, phase = 10\<rparr>],
         [\<lparr>station = ''A'', constituent = ''M2'', speed = 29, amplitude = 1, phase = 350\<rparr>]]
      = [[\<lparr>station = ''A'', constituent = ''M2'', speed = 29, amplitude = 1, phase = 10\<rparr>],
         [\<lparr>station = ''A'', constituent = ''M2'', speed = 29, amplitude = 1, phase = 350\<rparr>],
         [\<lparr>station = ''A'', constituent = ''M2'', speed = 29, amplitude = 1, phase = 370\<rparr>],
         [\<lparr>station = ''A'', constituent = ''M2'', speed = 29, amplitude = 1, phase = 350\<rparr>]]"
    by (simp add: amplitude_plot_step_def alloc_def Let_def)
  have mae: "mae_phase_st 0 1 [[359, 10], [1, 40]] = (Some 16, [[359, 10], [1, 40], [2, 30], [2, 30]])"
    by (simp add: mae_phase_st_def alloc_def phase_correct_inplace_def fold_high_def fold_low_def
        mean_def Let_def)
  show ?thesis
    using stages_store_effect [of 0 "[[358, 10], [- 350, 5]]" 0 1 0 1 0 1 "[]" 0 1]
      stages_store_effect [of 1 "[[90, 10], [- 35, 5]]" 0 1 0 1 0 1 "[]" 0 1]
      stages_store_effect [of 0 "[[359, 10], [1, 40]]" 0 1 0 1 0 1
        "[[\<lparr>station = ''A'', constituent = ''M2'', speed = 29, amplitude = 1, phase = 10\<rparr>],
         [\<lparr>station = ''A'', constituent = ''M2'', speed = 29, amplitude = 1, phase = 350\<rparr>]]" 0 1]
      step mae
    by (simp add: phase_correct_def fold_high_def fold_low_def numeral_2_eq_2)
qed

subsection \<open>The direction of the resampling\<close>

lemma mode_defined: "2 \<le> length t \<Longrightarrow> \<exists>m. mode t = Inr m"
proof -
  assume "2 \<le> length t"
  then have "length (np_diff t) \<noteq> 0" by (simp add: np_diff_def)
  then have "np_diff t \<noteq> []" by auto
  then have "sort (remdups (np_diff t)) \<noteq> []"
    by (metis remdups_eq_nil_iff set_empty set_sort)
  then have "np_unique_counts (np_diff t) \<noteq> []"
    by (simp add: np_unique_counts_def)
  then show ?thesis
    by (cases "np_unique_counts (np_diff t)") (simp_all add: mode_def)
qed














subsection \<open>Two series on one regular grid\<close>

lemma regular_grid_length [simp]: "length (regular_grid t0 f n) = n"
  by (simp add: regular_grid_def)

lemma regular_grid_eq_Nil [simp]: "regular_grid t0 f n = [] \<longleftrightarrow> n = 0"
  by (simp add: regular_grid_def)

lemma regular_grid_nth [simp]: "i < n \<Longrightarrow> regular_grid t0 f n ! i = t0 + int i * f"
  by (simp add: regular_grid_def)

lemma regular_grid_increasing: "0 < f \<Longrightarrow> strictly_increasing (regular_grid t0 f n)"
  by (simp add: strictly_increasing_def regular_grid_def sorted_wrt_map sorted_wrt_iff_nth_less)

lemma regular_grid_distinct: "0 < f \<Longrightarrow> distinct (regular_grid t0 f n)"
  using regular_grid_increasing [of f t0 n]
  by (simp add: strictly_increasing_def strict_sorted_iff)

lemma np_diff_regular: "np_diff (regular_grid t0 f n) = replicate (n - 1) f"
  by (rule nth_equalityI) (simp_all add: np_diff_def nth_tl algebra_simps)

lemma count_list_replicate: "count_list (replicate n x) x = n"
  by (induction n) simp_all

lemma np_unique_counts_replicate: "np_unique_counts (replicate (Suc k) f) = [(f, Suc k)]"
proof -
  have "remdups (replicate (Suc k) f) = [f]"
    by (induction k) simp_all
  moreover have "count_list (replicate (Suc k) f) f = Suc k"
    by (rule count_list_replicate)
  ultimately show ?thesis
    by (simp only: np_unique_counts_def) simp
qed

lemma mode_regular: "2 \<le> n \<Longrightarrow> mode (regular_grid t0 f n) = Inr f"
proof -
  assume "2 \<le> n"
  then obtain k where k: "n - 1 = Suc k" by (cases "n - 1") auto
  have "np_diff (regular_grid t0 f n) = replicate (Suc k) f"
    by (simp only: np_diff_regular k)
  then show ?thesis
    by (simp only: mode_def np_unique_counts_replicate) simp
qed

lemma grid_regular:
  assumes "0 < f" "0 < n"
  shows "grid t0 (t0 + (int n - 1) * f) f = regular_grid t0 f n"
proof -
  have "(int n - 1) * f div f = int n - 1" using assms by simp
  then have "nat ((t0 + (int n - 1) * f - t0) div f + 1) = n" using assms by simp
  then show ?thesis by (simp add: grid_def regular_grid_def)
qed

lemma lookup_zip:
  "distinct ts \<Longrightarrow> length vs = length ts \<Longrightarrow> i < length ts \<Longrightarrow>
   lookup (zip ts vs) (ts ! i) = vs ! i"
  by (simp add: lookup_def map_of_zip_nth)

lemma reindex_zip:
  assumes "distinct ts" "length vs = length ts"
  shows "reindex (zip ts vs) ts = zip ts vs"
  using assms by (intro nth_equalityI) (simp_all add: reindex_def lookup_zip)

lemma interp_fill_all_Some: "interp_fill prev k (map Some xs) = map Some xs"
  by (induction xs arbitrary: prev k) simp_all

lemma interpolate_gap_free:
  "length xs = length ts \<Longrightarrow> interpolate (zip ts (map Some xs)) = zip ts (map Some xs)"
  by (simp add: interpolate_def interp_fill_all_Some)

lemma zip_regular_ne:
  "0 < n \<Longrightarrow> length vs = n \<Longrightarrow> zip (regular_grid t0 f n) vs \<noteq> []"
  by auto

lemma hd_zip_regular:
  "0 < n \<Longrightarrow> length vs = n \<Longrightarrow> fst (hd (zip (regular_grid t0 f n) vs)) = t0"
  by (cases vs; cases n) (simp_all add: regular_grid_def upt_rec)

lemma last_zip_regular:
  "0 < n \<Longrightarrow> length vs = n \<Longrightarrow>
   fst (last (zip (regular_grid t0 f n) vs)) = t0 + (int n - 1) * f"
  using zip_regular_ne [of n vs t0 f]
  by (simp add: last_conv_nth of_nat_diff del: zip_eq_Nil_iff)

lemma asfreq_regular:
  assumes "0 < f" "0 < n" "length vs = n"
  shows "asfreq f (zip (regular_grid t0 f n) vs) = Inr (zip (regular_grid t0 f n) vs)"
proof -
  have ne: "zip (regular_grid t0 f n) vs \<noteq> []" using assms by (intro zip_regular_ne)
  show ?thesis
    using assms ne
    by (simp add: asfreq_def regular_grid_increasing hd_zip_regular last_zip_regular grid_regular
        reindex_zip regular_grid_distinct)
qed

lemma resample_asfreq_regular:
  assumes "0 < f" "0 < n" "length vs = n"
  shows "resample_asfreq f t0 (zip (regular_grid t0 f n) vs) = Inr (zip (regular_grid t0 f n) vs)"
proof -
  have ne: "zip (regular_grid t0 f n) vs \<noteq> []" using assms by (intro zip_regular_ne)
  show ?thesis
    using assms ne
    by (simp add: resample_asfreq_def regular_grid_increasing hd_zip_regular last_zip_regular
        grid_regular reindex_zip regular_grid_distinct)
qed

lemma resample_pair_cons:
  assumes "obs = (t0, v0) # (t1, v1) # orest" "mdl = (m0, w0) # mrest"
  shows "resample_pair obs mdl modelfreq =
     (case higher_resolution obs mdl of
        Inl e \<Rightarrow> Inl e
      | Inr First \<Rightarrow>
          (case resample_asfreq modelfreq m0 obs of
             Inl e \<Rightarrow> Inl e
           | Inr obs_data \<Rightarrow> Inr (obs_data, mdl))
      | Inr Second \<Rightarrow>
          (case resample_interpolate (t1 - t0) t0 mdl of
             Inl e \<Rightarrow> Inl e
           | Inr model_data \<Rightarrow>
               (case asfreq (t1 - t0) obs of
                  Inl e \<Rightarrow> Inl e
                | Inr obs_data \<Rightarrow> Inr (obs_data, model_data))))"
  unfolding assms by (simp add: resample_pair_def Let_def)

lemma zip_regular_cons:
  assumes "2 \<le> n" "length vs = n"
  shows "\<exists>v0 v1 rest. zip (regular_grid t0 f n) vs = (t0, v0) # (t0 + f, v1) # rest"
proof -
  obtain v0 v1 vs' where vs: "vs = v0 # v1 # vs'"
    using assms by (cases vs; cases "tl vs") auto
  obtain k where n: "n = Suc (Suc k)"
    using assms(1) by (cases n; cases "n - 1") auto
  show ?thesis
    by (simp add: vs n regular_grid_def upt_rec)
qed

lemma concat_singletons: "concat (map (\<lambda>r. [r]) rs) = rs"
  by (induction rs) simp_all

lemma join_dropna_same_grid:
  assumes "distinct ts" "sorted ts" "length xs = length ts" "length ys = length ts"
  shows "join_dropna (zip ts (map Some xs)) (zip ts (map Some ys)) =
     map (\<lambda>(t, x, y). \<lparr>time = t, model = x, observation = y\<rparr>) (zip ts (zip xs ys))"
proof -
  let ?rows = "map (\<lambda>(t, x, y). \<lparr>time = t, model = x, observation = y\<rparr>) (zip ts (zip xs ys))"
  let ?F = "\<lambda>(t, mv). (case (mv, lookup (zip ts (map Some ys)) t) of
             (Some m, Some ob) \<Rightarrow> [\<lparr>time = t, model = m, observation = ob\<rparr>]
           | _ \<Rightarrow> [])"
  have "map ?F (zip ts (map Some xs)) = map (\<lambda>r. [r]) ?rows"
    using assms by (intro nth_equalityI) (simp_all add: lookup_zip)
  then have "concat (map ?F (zip ts (map Some xs))) = concat (map (\<lambda>r. [r]) ?rows)"
    by (rule arg_cong)
  then have c: "concat (map ?F (zip ts (map Some xs))) = ?rows"
    by (simp only: concat_singletons)
  have "map time ?rows = ts"
    using assms by (intro nth_equalityI) simp_all
  with assms have "sorted (map time ?rows)" by simp
  then have "sort_key time ?rows = ?rows" by (rule sort_key_id_if_sorted)
  with c show ?thesis
    unfolding join_dropna_def by simp
qed

text \<open>
  Claim C7. When the model and the observations share one regular grid (\<open>n \<ge> 2\<close>
  timestamps \<open>t0 + k * f\<close> with \<open>f > 0\<close>) and have a value at each of its timestamps,
  the resampling step returns both series as they are and the aligned frame has, row by
  row, the timestamps of the grid, the model's values and the observations' values.
\<close>

theorem align_identity:
  assumes n: "2 \<le> n" and f: "0 < f" and xs: "length xs = n" and ys: "length ys = n"
  shows "resample_pair (zip (regular_grid t0 f n) (map Some ys))
            (zip (regular_grid t0 f n) (map Some xs)) modelfreq
           = Inr (zip (regular_grid t0 f n) (map Some ys),
                  zip (regular_grid t0 f n) (map Some xs))
       \<and> align (zip (regular_grid t0 f n) (map Some ys))
            (zip (regular_grid t0 f n) (map Some xs)) modelfreq
           = Inr (map (\<lambda>(t, x, y). \<lparr>time = t, model = x, observation = y\<rparr>)
                    (zip (regular_grid t0 f n) (zip xs ys)))"
proof -
  let ?ts = "regular_grid t0 f n"
  let ?obs = "zip ?ts (map Some ys)"
  let ?mdl = "zip ?ts (map Some xs)"
  have n0: "0 < n" using n by simp
  obtain v0 v1 orest where obs: "?obs = (t0, v0) # (t0 + f, v1) # orest"
    using zip_regular_cons [of n "map Some ys" t0 f] n ys by auto
  obtain w0 w1 mrest where mdl: "?mdl = (t0, w0) # (t0 + f, w1) # mrest"
    using zip_regular_cons [of n "map Some xs" t0 f] n xs by auto
  have io: "map fst ?obs = ?ts" and im: "map fst ?mdl = ?ts"
    using xs ys by simp_all
  have hr: "higher_resolution ?obs ?mdl = Inr Second"
    by (simp add: higher_resolution_def io im mode_regular [OF n])
  have ri: "resample_interpolate f t0 ?mdl = Inr ?mdl"
    using xs by (simp add: resample_interpolate_def resample_asfreq_regular [OF f n0]
        interpolate_gap_free)
  have af: "asfreq f ?obs = Inr ?obs"
    using ys by (simp add: asfreq_regular [OF f n0])
  have rp: "resample_pair ?obs ?mdl modelfreq = Inr (?obs, ?mdl)"
    by (simp add: resample_pair_cons [OF obs mdl] hr ri af)
  have "sorted ?ts" "distinct ?ts"
    using regular_grid_increasing [OF f, of t0 n]
    by (simp_all add: strictly_increasing_def strict_sorted_iff)
  then have "join_dropna ?mdl ?obs =
      map (\<lambda>(t, x, y). \<lparr>time = t, model = x, observation = y\<rparr>) (zip ?ts (zip xs ys))"
    using xs ys by (intro join_dropna_same_grid) simp_all
  with rp show ?thesis
    by (simp add: align_def)
qed

theorem align_identity_witness:
  "align [(0, Some 1), (3600, Some 2), (7200, Some 3)]
         [(0, Some 10), (3600, Some 11), (7200, Some 12)] 3600
     = Inr [\<lparr>time = 0, model = 10, observation = 1\<rparr>,
            \<lparr>time = 3600, model = 11, observation = 2\<rparr>,
            \<lparr>time = 7200, model = 12, observation = 3\<rparr>]
   \<and> resample_pair [(0, Some 1), (3600, Some 2), (7200, Some 3)]
         [(0, Some 10), (3600, Some 11), (7200, Some 12)] 3600
     = Inr ([(0, Some 1), (3600, Some 2), (7200, Some 3)],
            [(0, Some 10), (3600, Some 11), (7200, Some 12)])"
proof -
  have g: "regular_grid 0 3600 3 = [0, 3600, 7200]"
    by (simp add: regular_grid_def upt_rec)
  from align_identity [of 3 3600 "[10, 11, 12]" "[1, 2, 3]" 0 3600]
  show ?thesis by (simp add: g)
qed

subsection \<open>Skipped stations and the summary\<close>












end
